theory Spec2Isabelle
  imports Complex_Main "HOL-Library.Word"
begin

section \<open>Python values used by the scanner\<close>

text \<open>
  Bytes read from a file are 8-bit words. Exceptions are values: the scanner only
  distinguishes the classes named in its \<^verbatim>\<open>except\<close> clauses. In Python 3
  \<^verbatim>\<open>IOError\<close> is \<^verbatim>\<open>OSError\<close>, of which \<^verbatim>\<open>FileNotFoundError\<close> and
  \<^verbatim>\<open>PermissionError\<close> are subclasses; \<open>OSError\<close> below stands for every other
  operating-system error and \<open>OtherException\<close> for every exception that is not an
  \<^verbatim>\<open>OSError\<close> (a parser error of a PDF library, an \<^verbatim>\<open>ImportError\<close>, ...).
\<close>

type_synonym byte = "8 word"

datatype py_error = FileNotFoundError | PermissionError | OSError | OtherException

text \<open>
  A \<^verbatim>\<open>dict\<close> keeps its keys in insertion order and \<^verbatim>\<open>items()\<close> walks them in
  that order, so a dictionary is an association list with distinct keys.
  \<open>dict_set\<close> is \<^verbatim>\<open>d[k] = v\<close>; \<open>dict_append\<close> is the idiom
  \<^verbatim>\<open>if k not in d: d[k] = []\<close> followed by \<^verbatim>\<open>d[k].append(x)\<close>.
\<close>

type_synonym ('k, 'v) dict = "('k \<times> 'v) list"

fun dict_set :: "('k, 'v) dict \<Rightarrow> 'k \<Rightarrow> 'v \<Rightarrow> ('k, 'v) dict" where
  "dict_set [] k v = [(k, v)]"
| "dict_set ((k', v') # d) k v =
     (if k' = k then (k, v) # d else (k', v') # dict_set d k v)"

definition dict_append :: "('k, 'v list) dict \<Rightarrow> 'k \<Rightarrow> 'v \<Rightarrow> ('k, 'v list) dict" where
  "dict_append d k x =
     (case map_of d k of
        None \<Rightarrow> dict_set d k [x]
      | Some xs \<Rightarrow> dict_set d k (xs @ [x]))"

section \<open>The data model of \<^verbatim>\<open>file_scanner.py\<close>\<close>

text \<open>
  \<^verbatim>\<open>FileInfo\<close> is a mutable dataclass and the same object is shared by the
  inventory, the name index, the exact-duplicate index and the similarity index.
  The objects therefore live in a store (\<open>heap\<close>, a list indexed by reference) and
  the four containers hold references. The field \<^verbatim>\<open>size\<close> is called \<open>size_f\<close>
  and \<^verbatim>\<open>modified\<close> is the timestamp it was built from.
\<close>

record FileInfo =
  path :: string
  name :: string
  size_f :: nat
  modified :: int
  content_hash :: "string option"
  similarity_group :: "string option"

type_synonym ref = nat

record FileScanner =
  base_directory :: string
  include_subdirs :: bool
  similarity_threshold :: rat
  file_extensions :: "string list option"
  heap :: "FileInfo list"
  file_inventory :: "ref list"
  duplicate_map :: "(string, ref list) dict"
  name_map :: "(string, ref list) dict"
  similarity_groups :: "(string, ref list) dict"

text \<open>\<^verbatim>\<open>FileScanner.__init__\<close>; \<^verbatim>\<open>os.path.abspath\<close> is applied by the caller.\<close>

definition FileScanner_init :: "string \<Rightarrow> bool \<Rightarrow> rat \<Rightarrow> string list option \<Rightarrow> FileScanner" where
  "FileScanner_init base subdirs threshold exts =
     \<lparr> base_directory = base, include_subdirs = subdirs,
       similarity_threshold = threshold, file_extensions = exts,
       heap = [], file_inventory = [], duplicate_map = [], name_map = [],
       similarity_groups = [] \<rparr>"

subsection \<open>\<^verbatim>\<open>get_duplicate_groups\<close> and \<^verbatim>\<open>get_identical_names\<close>\<close>

text \<open>
  One pass of \<^verbatim>\<open>for k, files in d.items(): if len(files) > 1: results[k] = files\<close>.
\<close>

fun add_groups :: "(string, ref list) dict \<Rightarrow> (string, ref list) dict \<Rightarrow> (string, ref list) dict" where
  "add_groups results [] = results"
| "add_groups results ((k, files) # d) =
     (if length files > 1 then add_groups (dict_set results k files) d
      else add_groups results d)"

definition get_duplicate_groups :: "FileScanner \<Rightarrow> (string, ref list) dict" where
  "get_duplicate_groups s =
     add_groups (add_groups [] (duplicate_map s)) (similarity_groups s)"

definition get_identical_names :: "FileScanner \<Rightarrow> (string, ref list) dict" where
  "get_identical_names s = filter (\<lambda>(n, files). length files > 1) (name_map s)"

section \<open>Strings, paths and number formatting\<close>

text \<open>
  Python strings are modelled as ASCII text. \<open>lower\<close> is \<^verbatim>\<open>str.lower\<close>,
  \<open>endswith\<close> is \<^verbatim>\<open>str.endswith\<close>, and the \<^verbatim>\<open>os.path\<close> functions are
  those of \<^verbatim>\<open>posixpath\<close>.
\<close>

definition lower_char :: "char \<Rightarrow> char" where
  "lower_char c =
     (let n = (of_char c :: nat) in if 65 \<le> n \<and> n \<le> 90 then char_of (n + 32) else c)"

definition lower :: "string \<Rightarrow> string" where
  "lower s = map lower_char s"

definition endswith :: "string \<Rightarrow> string \<Rightarrow> bool" where
  "endswith s suf = (length suf \<le> length s \<and> drop (length s - length suf) s = suf)"

text \<open>\<^verbatim>\<open>str.rfind\<close> of a single character: the last index, or -1.\<close>

definition rfind :: "string \<Rightarrow> char \<Rightarrow> int" where
  "rfind p c =
     (case filter (\<lambda>i. p ! i = c) (rev [0..<length p]) of
        [] \<Rightarrow> - 1
      | i # _ \<Rightarrow> int i)"

text \<open>\<^verbatim>\<open>os.path.join(a, b)\<close>.\<close>

definition join :: "string \<Rightarrow> string \<Rightarrow> string" where
  "join a b =
     (if b \<noteq> [] \<and> hd b = CHR ''/'' then b
      else if a = [] \<or> last a = CHR ''/'' then a @ b
      else a @ ''/'' @ b)"

text \<open>\<^verbatim>\<open>os.path.basename(p)\<close>: the part after the last slash.\<close>

definition basename :: "string \<Rightarrow> string" where
  "basename p = drop (nat (rfind p CHR ''/'' + 1)) p"

text \<open>
  \<^verbatim>\<open>os.path.splitext(p)\<close>: the extension starts at the last dot, provided that dot
  comes after the last slash and some character between the slash and the dot is not
  a dot (the library's loop over the leading dots).
\<close>

definition splitext :: "string \<Rightarrow> string \<times> string" where
  "splitext p =
     (let sepIndex = rfind p CHR ''/''; dotIndex = rfind p CHR ''.'' in
      if dotIndex > sepIndex \<and>
         list_ex (\<lambda>i. p ! i \<noteq> CHR ''.'') [nat (sepIndex + 1)..<nat dotIndex]
      then (take (nat dotIndex) p, drop (nat dotIndex) p)
      else (p, []))"

text \<open>Decimal rendering of integers, as an f-string does.\<close>

definition digit_char :: "nat \<Rightarrow> char" where
  "digit_char d = char_of (48 + d)"

function str_nat :: "nat \<Rightarrow> string" where
  "str_nat n = (if n < 10 then [digit_char n] else str_nat (n div 10) @ [digit_char (n mod 10)])"
  by pat_completeness auto
termination
  by (relation "measure id") auto

declare str_nat.simps [simp del]

definition str_int :: "int \<Rightarrow> string" where
  "str_int i = (if i < 0 then CHR ''-'' # str_nat (nat (- i)) else str_nat (nat i))"

section \<open>The world outside the program\<close>

text \<open>
  What the operating system and the libraries answer is a parameter of every
  operation: the directory walk, \<^verbatim>\<open>os.stat\<close> (size and modification time), the
  bytes behind a path opened with \<^verbatim>\<open>open(path, 'rb')\<close>, the MD5 digest of a byte
  string as \<^verbatim>\<open>hexdigest()\<close> prints it, the two PDF text extractors (each a
  function of the file's bytes, each able to fail; the first one page by page), and
  Python's \<^verbatim>\<open>hash\<close> of a string.
\<close>

record world =
  os_walk :: "string \<Rightarrow> (string \<times> string list \<times> string list) list"
  os_stat :: "string \<Rightarrow> py_error + (nat \<times> int)"
  open_rb :: "string \<Rightarrow> py_error + byte list"
  md5_hex :: "byte list \<Rightarrow> string"
  import_PyPDF2 :: "py_error option"
  PdfReader_pages :: "byte list \<Rightarrow> py_error + (py_error + string) list"
  import_pdfminer :: "py_error option"
  pdfminer_text :: "byte list \<Rightarrow> py_error + string"
  str_hash :: "string \<Rightarrow> int"

section \<open>The content hasher\<close>

text \<open>
  \<^verbatim>\<open>_calculate_file_hash\<close> (Isabelle names cannot start with an underscore). An
  \<^verbatim>\<open>md5\<close> object is the byte string it has absorbed: \<^verbatim>\<open>update(data)\<close> appends,
  which is \<^verbatim>\<open>hashlib\<close>'s contract. A file opened for reading is the list of the
  bytes not yet read; \<^verbatim>\<open>f.read(n)\<close> returns the next \<open>n\<close> of them (fewer at the
  end of the file) and the loop stops at the first empty read.
\<close>

function read_loop :: "nat \<Rightarrow> byte list \<Rightarrow> byte list \<Rightarrow> byte list" where
  "read_loop buffer_size f md5_hash =
     (if take buffer_size f = [] then md5_hash
      else read_loop buffer_size (drop buffer_size f) (md5_hash @ take buffer_size f))"
  by pat_completeness auto
termination
  by (relation "measure (\<lambda>(b, f, m). length f)") auto

declare read_loop.simps [simp del]

definition calculate_file_hash :: "world \<Rightarrow> string \<Rightarrow> py_error + string" where
  "calculate_file_hash w file_path =
     (case open_rb w file_path of
        Inl e \<Rightarrow> Inl e
      | Inr f \<Rightarrow> Inr (md5_hex w (read_loop 65536 f [])))"

section \<open>The inventory builder\<close>

text \<open>
  The body of the inner loop of \<^verbatim>\<open>inventory_files\<close> for one file name. Only
  \<^verbatim>\<open>FileNotFoundError\<close> and \<^verbatim>\<open>PermissionError\<close> are caught; any other error
  of \<^verbatim>\<open>os.stat\<close> leaves the method.
\<close>

definition inventory_file :: "world \<Rightarrow> string \<Rightarrow> FileScanner \<Rightarrow> string \<Rightarrow> py_error + FileScanner" where
  "inventory_file w root_dir s file_name =
     (let file_path = join root_dir file_name in
      if (case file_extensions s of
            None \<Rightarrow> False
          | Some exts \<Rightarrow> exts \<noteq> [] \<and> lower (snd (splitext file_name)) \<notin> set exts)
      then Inr s
      else
        (case os_stat w file_path of
           Inl e \<Rightarrow> if e = FileNotFoundError \<or> e = PermissionError then Inr s else Inl e
         | Inr (st_size, st_mtime) \<Rightarrow>
             Inr (s\<lparr> heap := heap s @
                        [\<lparr> path = file_path, name = file_name, size_f = st_size,
                           modified = st_mtime, content_hash = None,
                           similarity_group = None \<rparr>],
                      file_inventory := file_inventory s @ [length (heap s)],
                      name_map := dict_append (name_map s) file_name (length (heap s)) \<rparr>)))"

fun inventory_dir :: "world \<Rightarrow> string \<Rightarrow> FileScanner \<Rightarrow> string list \<Rightarrow> py_error + FileScanner" where
  "inventory_dir w root_dir s [] = Inr s"
| "inventory_dir w root_dir s (file_name # files) =
     (case inventory_file w root_dir s file_name of
        Inl e \<Rightarrow> Inl e
      | Inr s' \<Rightarrow> inventory_dir w root_dir s' files)"

fun inventory_walk ::
  "world \<Rightarrow> FileScanner \<Rightarrow> (string \<times> string list \<times> string list) list \<Rightarrow> py_error + FileScanner" where
  "inventory_walk w s [] = Inr s"
| "inventory_walk w s ((root_dir, dirs, files) # rest) =
     (if \<not> include_subdirs s \<and> root_dir \<noteq> base_directory s then inventory_walk w s rest
      else
        (case inventory_dir w root_dir s files of
           Inl e \<Rightarrow> Inl e
         | Inr s' \<Rightarrow> inventory_walk w s' rest))"

definition inventory_files :: "world \<Rightarrow> FileScanner \<Rightarrow> py_error + FileScanner" where
  "inventory_files w s =
     inventory_walk w (s\<lparr> file_inventory := [] \<rparr>) (os_walk w (base_directory s))"

section \<open>Similarity scoring (\<^verbatim>\<open>pdf_similarity.py\<close>)\<close>

text \<open>
  \<^verbatim>\<open>_tokenize_text\<close>: lower-case the text, delete every character that is neither
  a word character (\<^verbatim>\<open>\w\<close>) nor white space (\<^verbatim>\<open>\s\<close>), and split at runs of
  white space. The character classes are the ASCII ones; a character beyond ASCII
  counts as a word character.
\<close>

definition is_word_char :: "char \<Rightarrow> bool" where
  "is_word_char c =
     (let n = (of_char c :: nat) in
      (48 \<le> n \<and> n \<le> 57) \<or> (65 \<le> n \<and> n \<le> 90) \<or> (97 \<le> n \<and> n \<le> 122) \<or> n = 95 \<or> 128 \<le> n)"

definition is_space_char :: "char \<Rightarrow> bool" where
  "is_space_char c =
     (let n = (of_char c :: nat) in (9 \<le> n \<and> n \<le> 13) \<or> (28 \<le> n \<and> n \<le> 32))"

text \<open>\<^verbatim>\<open>str.split()\<close>; \<open>acc\<close> is the word being read.\<close>

fun split_ws :: "string \<Rightarrow> string \<Rightarrow> string list" where
  "split_ws acc [] = (if acc = [] then [] else [acc])"
| "split_ws acc (c # cs) =
     (if is_space_char c then (if acc = [] then split_ws [] cs else acc # split_ws [] cs)
      else split_ws (acc @ [c]) cs)"

definition tokenize_text :: "string \<Rightarrow> string list" where
  "tokenize_text text_s =
     split_ws [] (filter (\<lambda>c. is_word_char c \<or> is_space_char c) (lower text_s))"

text \<open>
  \<^verbatim>\<open>_jaccard_similarity\<close>. The score is a Python float, the correctly rounded
  quotient of two integers; it is modelled by the exact quotient.
\<close>

definition jaccard_similarity :: "string \<Rightarrow> string \<Rightarrow> rat" where
  "jaccard_similarity text1 text2 =
     (let words1 = set (tokenize_text text1); words2 = set (tokenize_text text2) in
      if words1 = {} \<or> words2 = {} then 0
      else
        (let intersection = card (words1 \<inter> words2); union = card (words1 \<union> words2) in
         if union > 0 then of_nat intersection / of_nat union else 0))"

text \<open>
  \<^verbatim>\<open>_extract_text_pypdf2\<close>: import the library, open the file, build the reader and
  concatenate the text of the pages; the first failure raises.
\<close>

fun concat_pages :: "string \<Rightarrow> (py_error + string) list \<Rightarrow> py_error + string" where
  "concat_pages text_s [] = Inr text_s"
| "concat_pages text_s (Inl e # pages) = Inl e"
| "concat_pages text_s (Inr t # pages) = concat_pages (text_s @ t) pages"

definition extract_text_pypdf2 :: "world \<Rightarrow> string \<Rightarrow> py_error + string" where
  "extract_text_pypdf2 w file_path =
     (case import_PyPDF2 w of
        Some e \<Rightarrow> Inl e
      | None \<Rightarrow>
          (case open_rb w file_path of
             Inl e \<Rightarrow> Inl e
           | Inr f \<Rightarrow>
               (case PdfReader_pages w f of
                  Inl e \<Rightarrow> Inl e
                | Inr pages \<Rightarrow> concat_pages [] pages)))"

definition calculate_similarity_pypdf2 :: "world \<Rightarrow> string \<Rightarrow> string \<Rightarrow> py_error + rat" where
  "calculate_similarity_pypdf2 w file1_path file2_path =
     (case import_PyPDF2 w of
        Some e \<Rightarrow> Inl e
      | None \<Rightarrow>
          (case extract_text_pypdf2 w file1_path of
             Inl e \<Rightarrow> Inl e
           | Inr text1 \<Rightarrow>
               (case extract_text_pypdf2 w file2_path of
                  Inl e \<Rightarrow> Inl e
                | Inr text2 \<Rightarrow> Inr (jaccard_similarity text1 text2))))"

text \<open>\<^verbatim>\<open>pdfminer.high_level.extract_text(path)\<close> opens the path itself.\<close>

definition extract_text :: "world \<Rightarrow> string \<Rightarrow> py_error + string" where
  "extract_text w file_path =
     (case open_rb w file_path of
        Inl e \<Rightarrow> Inl e
      | Inr f \<Rightarrow> pdfminer_text w f)"

definition calculate_similarity_pdfminer :: "world \<Rightarrow> string \<Rightarrow> string \<Rightarrow> py_error + rat" where
  "calculate_similarity_pdfminer w file1_path file2_path =
     (case import_pdfminer w of
        Some e \<Rightarrow> Inl e
      | None \<Rightarrow>
          (case extract_text w file1_path of
             Inl e \<Rightarrow> Inl e
           | Inr text1 \<Rightarrow>
               (case extract_text w file2_path of
                  Inl e \<Rightarrow> Inl e
                | Inr text2 \<Rightarrow> Inr (jaccard_similarity text1 text2))))"

text \<open>
  \<^verbatim>\<open>get_file_blocks\<close>, the inner function of the byte-block tier: the set of the MD5
  digests of the file's 4096-byte chunks. Opening the file is not guarded.
\<close>

function blocks_loop :: "world \<Rightarrow> byte list \<Rightarrow> string set \<Rightarrow> string set" where
  "blocks_loop w f blocks =
     (if take 4096 f = [] then blocks
      else blocks_loop w (drop 4096 f) (insert (md5_hex w (take 4096 f)) blocks))"
  by pat_completeness auto
termination
  by (relation "measure (\<lambda>(w, f, b). length f)") auto

declare blocks_loop.simps [simp del]

definition get_file_blocks :: "world \<Rightarrow> string \<Rightarrow> py_error + string set" where
  "get_file_blocks w path_s =
     (case open_rb w path_s of
        Inl e \<Rightarrow> Inl e
      | Inr f \<Rightarrow> Inr (blocks_loop w f {}))"

definition calculate_similarity_hash_based :: "world \<Rightarrow> string \<Rightarrow> string \<Rightarrow> py_error + rat" where
  "calculate_similarity_hash_based w file1_path file2_path =
     (case get_file_blocks w file1_path of
        Inl e \<Rightarrow> Inl e
      | Inr blocks1 \<Rightarrow>
          (case get_file_blocks w file2_path of
             Inl e \<Rightarrow> Inl e
           | Inr blocks2 \<Rightarrow>
               Inr (if blocks1 = {} \<or> blocks2 = {} then 0
                    else
                      (let intersection = card (blocks1 \<inter> blocks2);
                           union = card (blocks1 \<union> blocks2) in
                       if union > 0 then of_nat intersection / of_nat union else 0))))"

text \<open>\<^verbatim>\<open>calculate_pdf_similarity\<close>: each bare \<^verbatim>\<open>except\<close> moves to the next tier.\<close>

definition calculate_pdf_similarity :: "world \<Rightarrow> string \<Rightarrow> string \<Rightarrow> py_error + rat" where
  "calculate_pdf_similarity w file1_path file2_path =
     (case calculate_similarity_pypdf2 w file1_path file2_path of
        Inr v \<Rightarrow> Inr v
      | Inl _ \<Rightarrow>
          (case calculate_similarity_pdfminer w file1_path file2_path of
             Inr v \<Rightarrow> Inr v
           | Inl _ \<Rightarrow> calculate_similarity_hash_based w file1_path file2_path))"

section \<open>The similarity grouping pass\<close>

text \<open>
  \<^verbatim>\<open>x in lst\<close> for a list of \<^verbatim>\<open>FileInfo\<close> objects: identity, or the equality
  the dataclass generates (all fields equal).
\<close>

definition obj_in :: "FileInfo list \<Rightarrow> ref \<Rightarrow> ref list \<Rightarrow> bool" where
  "obj_in h r rs = list_ex (\<lambda>r'. r' = r \<or> h ! r' = h ! r) rs"

text \<open>
  The expression \<^verbatim>\<open>files[i].similarity_group or files[j].similarity_group or
  f"sim_{hash(name)}_{i}_{j}"\<close>: \<^verbatim>\<open>None\<close> and the empty string are false.
\<close>

definition choose_group_id ::
  "world \<Rightarrow> string \<Rightarrow> nat \<Rightarrow> nat \<Rightarrow> string option \<Rightarrow> string option \<Rightarrow> string" where
  "choose_group_id w name_s i j gi gj =
     (if gi \<noteq> None \<and> gi \<noteq> Some [] then the gi
      else if gj \<noteq> None \<and> gj \<noteq> Some [] then the gj
      else ''sim_'' @ str_int (str_hash w name_s) @ ''_'' @ str_nat i @ ''_'' @ str_nat j)"

text \<open>The body of the two nested loops of \<^verbatim>\<open>_group_similar_pdfs\<close> for one pair.\<close>

definition compare_pair ::
  "world \<Rightarrow> string \<Rightarrow> ref list \<Rightarrow> FileScanner \<Rightarrow> nat \<times> nat \<Rightarrow> FileScanner" where
  "compare_pair w name_s files s ij =
     (let i = fst ij; j = snd ij; fi = files ! i; fj = files ! j in
      if content_hash (heap s ! fi) = content_hash (heap s ! fj) then s
      else
        (case calculate_pdf_similarity w (path (heap s ! fi)) (path (heap s ! fj)) of
           Inl e \<Rightarrow> s
         | Inr similarity \<Rightarrow>
             if similarity \<ge> similarity_threshold s then
               (let group_id = choose_group_id w name_s i j
                                 (similarity_group (heap s ! fi)) (similarity_group (heap s ! fj));
                    h1 = (heap s)[fi := (heap s ! fi)\<lparr> similarity_group := Some group_id \<rparr>];
                    h2 = h1[fj := (h1 ! fj)\<lparr> similarity_group := Some group_id \<rparr>];
                    g0 = (if map_of (similarity_groups s) group_id = None
                          then dict_set (similarity_groups s) group_id []
                          else similarity_groups s);
                    g1 = (if \<not> obj_in h2 fi (the (map_of g0 group_id))
                          then dict_append g0 group_id fi else g0);
                    g2 = (if \<not> obj_in h2 fj (the (map_of g1 group_id))
                          then dict_append g1 group_id fj else g1)
                in s\<lparr> heap := h2, similarity_groups := g2 \<rparr>)
             else s))"

text \<open>The index pairs \<^verbatim>\<open>for i in range(n): for j in range(i + 1, n)\<close>, in order.\<close>

definition index_pairs :: "nat \<Rightarrow> (nat \<times> nat) list" where
  "index_pairs n = concat (map (\<lambda>i. map (\<lambda>j. (i, j)) [Suc i..<n]) [0..<n])"

definition group_name :: "world \<Rightarrow> FileScanner \<Rightarrow> string \<times> ref list \<Rightarrow> FileScanner" where
  "group_name w s entry =
     (let name_s = fst entry; files = snd entry in
      if \<not> endswith (lower name_s) ''.pdf'' \<or> length files \<le> 1 then s
      else foldl (compare_pair w name_s files) s (index_pairs (length files)))"

definition group_similar_pdfs :: "world \<Rightarrow> FileScanner \<Rightarrow> FileScanner" where
  "group_similar_pdfs w s =
     (let pdf_files = filter (\<lambda>r. endswith (lower (path (heap s ! r))) ''.pdf'') (file_inventory s) in
      if pdf_files = [] then s
      else foldl (group_name w) s (name_map s))"

section \<open>The duplicate grouping engine\<close>

text \<open>
  The loop of the generator \<^verbatim>\<open>process_files\<close> over a list of inventory records:
  the values it yields and the state it leaves. \<^verbatim>\<open>FileNotFoundError\<close>,
  \<^verbatim>\<open>PermissionError\<close> and \<^verbatim>\<open>IOError\<close> (every \<open>OSError\<close>) skip the record; any
  other exception leaves the generator.
\<close>

fun process_loop ::
  "world \<Rightarrow> FileScanner \<Rightarrow> ref list \<Rightarrow> py_error + ((ref \<times> string) list \<times> FileScanner)" where
  "process_loop w s [] = Inr ([], s)"
| "process_loop w s (r # rs) =
     (case calculate_file_hash w (path (heap s ! r)) of
        Inr file_hash \<Rightarrow>
          (case process_loop w
                  (s\<lparr> heap := (heap s)[r := (heap s ! r)\<lparr> content_hash := Some file_hash \<rparr>],
                      duplicate_map := dict_append (duplicate_map s) file_hash r \<rparr>) rs of
             Inl e \<Rightarrow> Inl e
           | Inr (ys, s') \<Rightarrow> Inr ((r, file_hash) # ys, s'))
      | Inl e \<Rightarrow>
          if e = FileNotFoundError \<or> e = PermissionError \<or> e = OSError
          then process_loop w s rs
          else Inl e)"

text \<open>
  A caller that exhausts the generator (\<^verbatim>\<open>list(scanner.process_files())\<close>): the
  loop over the whole inventory, then the similarity pass.
\<close>

definition process_files ::
  "world \<Rightarrow> FileScanner \<Rightarrow> py_error + ((ref \<times> string) list \<times> FileScanner)" where
  "process_files w s =
     (case process_loop w s (file_inventory s) of
        Inl e \<Rightarrow> Inl e
      | Inr (ys, s') \<Rightarrow> Inr (ys, group_similar_pdfs w s'))"

text \<open>
  A caller that abandons the generator once the loop has gone through the first
  \<open>n\<close> inventory records: the similarity pass does not run.
\<close>

definition process_files_upto ::
  "world \<Rightarrow> FileScanner \<Rightarrow> nat \<Rightarrow> py_error + ((ref \<times> string) list \<times> FileScanner)" where
  "process_files_upto w s n = process_loop w s (take n (file_inventory s))"

section \<open>Concrete worlds for evaluation\<close>

text \<open>
  A small world on which the operations can be run: a fixed directory walk, a table
  of \<^verbatim>\<open>os.stat\<close> results, a table of file contents (a path missing from a table
  raises \<^verbatim>\<open>FileNotFoundError\<close>), a digest that spells the bytes out (so it has no
  collisions), and text extractors that return the bytes as text.
\<close>

definition byte_digest :: "byte list \<Rightarrow> string" where
  "byte_digest bs = map (\<lambda>b. char_of (unat b)) bs"

definition example_world ::
  "(string \<times> string list \<times> string list) list \<Rightarrow> (string \<times> nat \<times> int) list \<Rightarrow>
   (string \<times> byte list) list \<Rightarrow> world" where
  "example_world walk stats contents =
     \<lparr> os_walk = (\<lambda>base. walk),
       os_stat = (\<lambda>p. case map_of stats p of None \<Rightarrow> Inl FileNotFoundError | Some st \<Rightarrow> Inr st),
       open_rb = (\<lambda>p. case map_of contents p of None \<Rightarrow> Inl FileNotFoundError | Some f \<Rightarrow> Inr f),
       md5_hex = byte_digest,
       import_PyPDF2 = None,
       PdfReader_pages = (\<lambda>f. Inr [Inr (byte_digest f)]),
       import_pdfminer = None,
       pdfminer_text = (\<lambda>f. Inr (byte_digest f)),
       str_hash = (\<lambda>s. int (length s)) \<rparr>"

section \<open>Verification\<close>

section \<open>Groups returned by \<^verbatim>\<open>get_duplicate_groups\<close>\<close>

lemma set_dict_set:
  "set (dict_set d k v) \<subseteq> insert (k, v) (set d)"
  by (induction d) (auto split: if_splits)

lemma add_groups_sizes:
  "\<forall>(k, files) \<in> set results. 2 \<le> length files \<Longrightarrow>
   \<forall>(k, files) \<in> set (add_groups results d). 2 \<le> length files"
proof (induction d arbitrary: results)
  case Nil
  then show ?case by simp
next
  case (Cons kv d)
  obtain k files where kv: "kv = (k, files)" by (cases kv)
  show ?case
  proof (cases "length files > 1")
    case True
    have "\<forall>(k', fs) \<in> set (dict_set results k files). 2 \<le> length fs"
      using Cons.prems True set_dict_set[of results k files] by auto
    from Cons.IH[OF this] show ?thesis using True kv by simp
  next
    case False
    then show ?thesis using Cons.IH[OF Cons.prems] kv by simp
  qed
qed

text \<open>
  Claim C1. Whatever the state of the scan session, every entry of the dictionary
  returned by \<^verbatim>\<open>get_duplicate_groups\<close>, keyed by a content hash or by a
  similarity-group id, lists at least two file records.
\<close>

theorem get_duplicate_groups_size:
  "\<forall>(k, files) \<in> set (get_duplicate_groups s). 2 \<le> length files"
  unfolding get_duplicate_groups_def
  by (rule add_groups_sizes, rule add_groups_sizes) simp

theorem get_duplicate_groups_size_witness:
  "get_duplicate_groups
     \<lparr> base_directory = ''/d'', include_subdirs = True, similarity_threshold = 1,
       file_extensions = None, heap = [], file_inventory = [0, 1, 2],
       duplicate_map = [(''h1'', [0, 1]), (''h2'', [2])], name_map = [],
       similarity_groups = [(''sim_1_0_1'', [3, 4]), (''sim_2_0_1'', [])] \<rparr>
     = [(''h1'', [0, 1]), (''sim_1_0_1'', [3, 4])]
   \<and> 2 \<le> length [0::nat, 1] \<and> 2 \<le> length [3::nat, 4]"
  using get_duplicate_groups_size
    [of "\<lparr> base_directory = ''/d'', include_subdirs = True, similarity_threshold = 1,
       file_extensions = None, heap = [], file_inventory = [0, 1, 2],
       duplicate_map = [(''h1'', [0, 1]), (''h2'', [2])], name_map = [],
       similarity_groups = [(''sim_1_0_1'', [3, 4]), (''sim_2_0_1'', [])] \<rparr>"]
  by (simp add: get_duplicate_groups_def)

section \<open>The content hasher is a function of the bytes\<close>

lemma read_loop_append: "0 < b \<Longrightarrow> read_loop b f m = m @ f"
proof (induction b f m rule: read_loop.induct)
  case (1 b f m)
  show ?case
  proof (cases "take b f = []")
    case True
    with 1(2) have "f = []" by simp
    with True show ?thesis by (subst read_loop.simps) simp
  next
    case False
    from 1(1)[OF False 1(2)] have "read_loop b (drop b f) (m @ take b f) = (m @ take b f) @ drop b f" .
    with False show ?thesis by (subst read_loop.simps) simp
  qed
qed

lemma char_of_unat_inj: "char_of (unat (a::byte)) = char_of (unat b) \<Longrightarrow> a = b"
proof -
  assume "char_of (unat a) = char_of (unat b)"
  then have "(of_char (char_of (unat a)) :: nat) = of_char (char_of (unat b))" by simp
  then have "unat a mod 256 = unat b mod 256" by (simp only: of_char_of)
  moreover have "unat a < 256" "unat b < 256"
    using unsigned_less[of a, where ?'a = nat] unsigned_less[of b, where ?'a = nat] by simp_all
  ultimately have "unat a = unat b" by simp
  then show "a = b" by (simp add: word_unat_eq_iff)
qed

lemma inj_byte_digest: "inj byte_digest"
  unfolding byte_digest_def
  by (rule inj_mapI) (rule injI, erule char_of_unat_inj)

text \<open>
  Claim C8. When the two files can be opened, the fingerprint of a file is the digest
  of its whole byte content, whatever the size of the read buffer (64 KiB in the
  source, any positive size in general): the same bytes always give the same
  fingerprint, and when the digest has no collisions two fingerprints are equal
  exactly when the contents are byte-identical.
\<close>

theorem calculate_file_hash_streaming:
  assumes "open_rb w p1 = Inr f1" and "open_rb w p2 = Inr f2"
  shows "calculate_file_hash w p1 = Inr (md5_hex w f1)
       \<and> (0 < b \<longrightarrow> md5_hex w (read_loop b f1 []) = md5_hex w (read_loop 65536 f1 []))
       \<and> (f1 = f2 \<longrightarrow> calculate_file_hash w p1 = calculate_file_hash w p2)
       \<and> (inj (md5_hex w) \<longrightarrow>
            (calculate_file_hash w p1 = calculate_file_hash w p2) = (f1 = f2))"
proof -
  have h1: "calculate_file_hash w p1 = Inr (md5_hex w f1)"
    using assms(1) by (simp add: calculate_file_hash_def read_loop_append)
  have h2: "calculate_file_hash w p2 = Inr (md5_hex w f2)"
    using assms(2) by (simp add: calculate_file_hash_def read_loop_append)
  have c2: "0 < b \<longrightarrow> md5_hex w (read_loop b f1 []) = md5_hex w (read_loop 65536 f1 [])"
    by (simp add: read_loop_append)
  have c4: "inj (md5_hex w) \<longrightarrow>
            (calculate_file_hash w p1 = calculate_file_hash w p2) = (f1 = f2)"
    using h1 h2 by (auto dest: injD)
  from h1 h2 c2 c4 show ?thesis by simp
qed

theorem calculate_file_hash_streaming_witness:
  "calculate_file_hash (example_world [] [] [(''/d/a'', [1, 2, 3]), (''/d/b'', [1, 2, 4])]) ''/d/a''
     = Inr (byte_digest [1, 2, 3])
   \<and> byte_digest (read_loop 2 [1, 2, 3] []) = byte_digest (read_loop 65536 [1, 2, 3] [])
   \<and> calculate_file_hash (example_world [] [] [(''/d/a'', [1, 2, 3]), (''/d/b'', [1, 2, 4])]) ''/d/a''
     \<noteq> calculate_file_hash (example_world [] [] [(''/d/a'', [1, 2, 3]), (''/d/b'', [1, 2, 4])]) ''/d/b''"
proof -
  let ?w = "example_world [] [] [(''/d/a'', [1, 2, 3]), (''/d/b'', [1, 2, 4])]"
  have a: "open_rb ?w ''/d/a'' = Inr [1, 2, 3]" by (simp add: example_world_def)
  have b: "open_rb ?w ''/d/b'' = Inr [1, 2, 4]" by (simp add: example_world_def)
  have d: "md5_hex ?w = byte_digest" by (simp add: example_world_def)
  have i: "inj (md5_hex ?w)" using inj_byte_digest by (simp only: d)
  have n: "[1, 2, 3] \<noteq> [1, 2, 4 :: byte]" by simp
  note t = calculate_file_hash_streaming [OF a b, of 2]
  have c1: "calculate_file_hash ?w ''/d/a'' = Inr (byte_digest [1, 2, 3])"
    using t [THEN conjunct1] by (simp only: d)
  have c2: "byte_digest (read_loop 2 [1, 2, 3] []) = byte_digest (read_loop 65536 [1, 2, 3] [])"
    using t [THEN conjunct2, THEN conjunct1] by (simp only: d)
  have c3: "calculate_file_hash ?w ''/d/a'' \<noteq> calculate_file_hash ?w ''/d/b''"
    using t [THEN conjunct2, THEN conjunct2, THEN conjunct2, rule_format, OF i] n
    by (simp only: simp_thms)
  show ?thesis
    by (rule conjI [OF c1 conjI [OF c2 c3]])
qed

end
